theory Spec2Isabelle
  imports Complex_Main "HOL-Library.Multiset" "HOL-Library.Product_Lexorder"
begin

section \<open>Python values shared by the functions of \<open>data_util.py\<close>\<close>

text \<open>
  Exceptions of the source are values: every function that can raise returns
  \<open>py_error + 'a\<close>, with \<open>Inl\<close> for the exception.
\<close>

datatype py_error = AssertionError | IndexError | KeyError | RuntimeError
  | ValueError | ZeroDivisionError

text \<open>
  \<open>xs[i]\<close> on a Python sequence: a negative index counts from the end, and an
  index outside \<open>[-len, len)\<close> raises \<open>IndexError\<close>.
\<close>

definition getitem :: "'a list \<Rightarrow> int \<Rightarrow> py_error + 'a" where
  "getitem xs idx =
     (if 0 \<le> idx \<and> idx < int (length xs) then Inr (xs ! nat idx)
      else if idx < 0 \<and> - int (length xs) \<le> idx
           then Inr (xs ! nat (int (length xs) + idx))
      else Inl IndexError)"

text \<open>
  A \<open>dict\<close> with string keys is an association list; \<open>d[k]\<close> raises
  \<open>KeyError\<close> on a missing key, and \<open>len(d)\<close> counts the distinct keys.
\<close>

type_synonym 'v dict = "(string \<times> 'v) list"

definition dict_get :: "'v dict \<Rightarrow> string \<Rightarrow> py_error + 'v" where
  "dict_get d k = (case map_of d k of None \<Rightarrow> Inl KeyError | Some v \<Rightarrow> Inr v)"

definition dict_len :: "'v dict \<Rightarrow> nat" where
  "dict_len d = length (remdups (map fst d))"

text \<open>
  An example is the 4-tuple the source builds:
  \<open>(token ids, is target speaker, onset, offset)\<close>, read as \<open>x[0] .. x[3]\<close>.
\<close>

type_synonym example = "int list \<times> bool \<times> int \<times> int"

section \<open>Window validation and window parameters\<close>

text \<open>
  \<open>test_for_bad_window(start, stop, shape, window)\<close>. The chain of \<open>or\<close> is
  evaluated left to right and stops at the first true disjunct, so \<open>shape[0]\<close>
  is only read when \<open>start < 0\<close> is false.
\<close>

definition test_for_bad_window :: "int \<Rightarrow> int \<Rightarrow> nat list \<Rightarrow> int \<Rightarrow> py_error + bool" where
  "test_for_bad_window start stop shape window =
     (if start < 0 then Inr True
      else case getitem shape 0 of
             Inl e \<Rightarrow> Inl e
           | Inr T \<Rightarrow> Inr (start > int T \<or> stop < 0 \<or> stop > int T
                          \<or> stop - start < window \<or> stop - start < 0))"

text \<open>
  The validity predicate as the specification words it, for comparison with
  \<open>test_for_bad_window\<close>: five disjuncts, none of them bounding the end of the
  window by the signal length.
\<close>

definition spec_bad_window :: "int \<Rightarrow> int \<Rightarrow> nat \<Rightarrow> int \<Rightarrow> bool" where
  "spec_bad_window begin_window end_window T window \<longleftrightarrow>
     begin_window < 0 \<or> begin_window > int T \<or> end_window < 0
     \<or> end_window - begin_window < window \<or> end_window - begin_window < 0"


section \<open>Word-pair generation\<close>

text \<open>
  \<open>generate_wordpairs(examples)\<close>. \<open>window_rules\<close> is the body of the loop for
  one adjacent pair \<open>(first, second)\<close>: three independent tests, each appending to
  \<open>my_grams\<close>. \<open>wordpairs_loop\<close> is the \<open>for\<close> over
  \<open>zip(examples, examples[1:])\<close>.
\<close>

fun window_rules :: "example list \<Rightarrow> example \<Rightarrow> example \<Rightarrow> example list" where
  "window_rules my_grams (toks1, spk1, on1, off1) (toks2, spk2, on2, off2) =
     (let len1 = length toks1; len2 = length toks2;
          g1 = (if spk1 \<and> len1 = 2 then my_grams @ [(toks1, spk1, on1, off1)] else my_grams);
          g2 = (if spk2 \<and> len2 = 2 then g1 @ [(toks2, spk2, on2, off2)] else g1)
      in if (spk1 \<and> spk2) \<and> (len1 = 1 \<and> len2 = 1) \<and> on1 < on2
         then g2 @ [(toks1 @ toks2, True, on1, off2)] else g2)"

fun wordpairs_loop :: "example list \<Rightarrow> (example \<times> example) list \<Rightarrow> example list" where
  "wordpairs_loop my_grams [] = my_grams"
| "wordpairs_loop my_grams ((first, second) # rest) =
     wordpairs_loop (window_rules my_grams first second) rest"

definition generate_wordpairs :: "example list \<Rightarrow> example list" where
  "generate_wordpairs examples = wordpairs_loop [] (zip examples (drop 1 examples))"

section \<open>Vocabulary filter\<close>

text \<open>
  \<open>filter(f, xs)\<close> consumed by \<open>list\<close>, for a predicate that may raise: the
  elements are tested in order and the first exception ends the run.
\<close>

fun filter_raise :: "('a \<Rightarrow> py_error + bool) \<Rightarrow> 'a list \<Rightarrow> py_error + 'a list" where
  "filter_raise p [] = Inr []"
| "filter_raise p (x # xs) =
     (case p x of
        Inl e \<Rightarrow> Inl e
      | Inr keep \<Rightarrow>
          (case filter_raise p xs of
             Inl e \<Rightarrow> Inl e
           | Inr ys \<Rightarrow> Inr (if keep then x # ys else ys)))"

text \<open>
  \<open>remove_oovs(grams, vocabulary, data_tag)\<close>. The lookup
  \<open>vocabulary['<unk>']\<close> is inside the lambda, so it happens once per example
  and not at all for an empty input. \<open>x[0] != [unk] * 2\<close> compares the token
  list with the two-element list of the unknown id.
\<close>

definition remove_oovs :: "example list \<Rightarrow> int dict \<Rightarrow> string \<Rightarrow> py_error + example list" where
  "remove_oovs grams vocabulary data_tag =
     (if data_tag = ''train''
      then filter_raise
             (\<lambda>x. case dict_get vocabulary ''<unk>'' of
                    Inl e \<Rightarrow> Inl e
                  | Inr unk \<Rightarrow> Inr (unk \<notin> set (fst x))) grams
      else filter_raise
             (\<lambda>x. case dict_get vocabulary ''<unk>'' of
                    Inl e \<Rightarrow> Inl e
                  | Inr unk \<Rightarrow> Inr (fst x \<noteq> replicate 2 unk)) grams)"

section \<open>Example dataset\<close>

text \<open>
  The class \<open>Brain2enDataset\<close>. A signal is a list of time steps (the rows of the
  array, so \<open>len\<close> counts time steps), a label a list of token ids.
  \<open>torch.from_numpy(...).float()\<close> keeps the shape and converts each row; the
  conversion of a row is the parameter \<open>to_float\<close>. The field \<open>skipped\<close> is
  the counter \<open>c\<close> that the constructor prints.
\<close>

record 't Brain2enDataset =
  examples :: "('t list \<times> int list) list"
  max_seq_len :: nat
  max_sent_len :: nat
  train_freq :: "int multiset"
  skipped :: nat

text \<open>
  The list \<open>indices\<close> of \<open>(i, len(signals[i]), len(labels[i]))\<close> after
  \<open>indices.sort(key=lambda x: (x[1], x[2], x[0]))\<close>; key tuples compare
  lexicographically.
\<close>

definition sorted_indices :: "'r list list \<Rightarrow> int list list \<Rightarrow> (nat \<times> nat \<times> nat) list" where
  "sorted_indices signals labels =
     sort_key (\<lambda>x. (fst (snd x), snd (snd x), fst x))
       (map (\<lambda>i. (i, length (signals ! i), length (labels ! i))) [0..<length signals])"

text \<open>The \<open>for i in indices\<close> loop of the constructor, on the object under construction.\<close>

fun init_loop ::
  "('r \<Rightarrow> 't) \<Rightarrow> 'r list list \<Rightarrow> int list list \<Rightarrow> 't Brain2enDataset
     \<Rightarrow> (nat \<times> nat \<times> nat) list \<Rightarrow> 't Brain2enDataset" where
  "init_loop to_float signals labels self [] = self"
| "init_loop to_float signals labels self (i # indices) =
     (if fst (snd i) > 384 \<or> snd (snd i) < 4 \<or> snd (snd i) > 128
      then init_loop to_float signals labels (self\<lparr>skipped := skipped self + 1\<rparr>) indices
      else let lab = labels ! fst i
           in init_loop to_float signals labels
                (self\<lparr>train_freq := train_freq self + mset lab,
                      examples := examples self @ [(map to_float (signals ! fst i), lab)],
                      max_seq_len := max (max_seq_len self) (fst (snd i)),
                      max_sent_len := max (max_sent_len self) (length lab)\<rparr>)
                indices)"

text \<open>\<open>__init__\<close>: the assertion on the two lengths, then the loop.\<close>

definition Brain2enDataset_init ::
  "('r \<Rightarrow> 't) \<Rightarrow> 'r list list \<Rightarrow> int list list \<Rightarrow> py_error + 't Brain2enDataset" where
  "Brain2enDataset_init to_float signals labels =
     (if length signals \<noteq> length labels then Inl AssertionError
      else Inr (init_loop to_float signals labels
                  \<lparr>examples = [], max_seq_len = 0, max_sent_len = 0, train_freq = {#},
                   skipped = 0\<rparr>
                  (sorted_indices signals labels)))"

text \<open>\<open>__len__\<close> and \<open>__getitem__\<close> (an integer index into the Python list).\<close>

definition Brain2enDataset_len :: "'t Brain2enDataset \<Rightarrow> nat" where
  "Brain2enDataset_len self = length (examples self)"

definition Brain2enDataset_getitem ::
  "'t Brain2enDataset \<Rightarrow> int \<Rightarrow> py_error + ('t list \<times> int list)" where
  "Brain2enDataset_getitem self idx = getitem (examples self) idx"

section \<open>Batch collation\<close>

text \<open>
  \<open>torch.nn.utils.rnn.pad_sequence(sequences, batch_first=True, padding_value=v)\<close>
  along the first dimension: every sequence is extended at its end with \<open>v\<close> to the
  longest length of the batch; an empty list of sequences is rejected. For the
  one-dimensional label tensors \<open>v\<close> is the pad id.
\<close>

definition pad_sequence :: "'a list list \<Rightarrow> 'a \<Rightarrow> py_error + 'a list list" where
  "pad_sequence sequences padding_value =
     (if sequences = [] then Inl RuntimeError
      else let max_len = fold max (map length sequences) 0
           in Inr (map (\<lambda>s. s @ replicate (max_len - length s) padding_value) sequences))"

text \<open>
  \<open>torch.zeros(B, L, V).scatter_(2, labels.unsqueeze(-1), 1)\<close>: row \<open>t\<close> of the
  identity for each label \<open>t\<close>; an index outside \<open>[0, V)\<close> is rejected.
\<close>

definition one_hot :: "nat \<Rightarrow> int \<Rightarrow> real list" where
  "one_hot V t = map (\<lambda>j. if int j = t then 1 else 0) [0..<V]"

definition scatter_one_hot :: "nat \<Rightarrow> int list list \<Rightarrow> py_error + real list list list" where
  "scatter_one_hot V labels =
     (if list_all (list_all (\<lambda>t. 0 \<le> t \<and> t < int V)) labels
      then Inr (map (map (one_hot V)) labels)
      else Inl RuntimeError)"

text \<open>The two values of the causal mask, \<open>0.0\<close> and \<open>float('-inf')\<close>.\<close>

datatype mask_value = MaskZero | MaskNegInf

text \<open>
  The class \<open>MyCollator\<close>; \<open>__init__\<close> reads \<open>CONFIG["pad_token"]\<close>, the only
  configuration entry the class uses.
\<close>

record MyCollator =
  CONFIG :: "string dict"
  vocabulary :: "int dict"
  pad_token :: string

definition MyCollator_init :: "string dict \<Rightarrow> int dict \<Rightarrow> py_error + MyCollator" where
  "MyCollator_init config vocab =
     (case dict_get config ''pad_token'' of
        Inl e \<Rightarrow> Inl e
      | Inr tok \<Rightarrow> Inr \<lparr>CONFIG = config, vocabulary = vocab, pad_token = tok\<rparr>)"

text \<open>\<open>labels.size(1)\<close> of a batch of rows of one length.\<close>

definition size1 :: "'a list list \<Rightarrow> nat" where
  "size1 m = (case m of [] \<Rightarrow> 0 | row # _ \<Rightarrow> length row)"

text \<open>
  \<open>masks(labels)\<close>. The lower triangle of the \<open>L \<times> L\<close> mask (the transposed
  \<open>triu\<close>) is filled with \<open>0.0\<close> and the rest with \<open>-inf\<close>;
  \<open>pad_mask\<close> is the elementwise comparison with the pad id.
\<close>

definition masks ::
  "MyCollator \<Rightarrow> int list list \<Rightarrow> py_error + (mask_value list list list \<times> bool list list)" where
  "masks self labels =
     (let L = size1 labels;
          pos_mask = [map (\<lambda>i. map (\<lambda>j. if j \<le> i then MaskZero else MaskNegInf) [0..<L]) [0..<L]]
      in case dict_get (vocabulary self) (pad_token self) of
           Inl e \<Rightarrow> Inl e
         | Inr pad_id \<Rightarrow> Inr (pos_mask, map (map (\<lambda>t. t = pad_id)) labels))"

text \<open>
  \<open>__call__(batch)\<close>. Padding the signal tensors depends on their trailing
  dimensions and is the parameter \<open>pad_signals\<close>; the labels are padded with the
  pad id, expanded to one-hot rows, and split into \<open>trg\<close> (\<open>[:, :-1, :]\<close>) and
  \<open>trg_y\<close> (\<open>labels[:, 1:]\<close>).
\<close>

definition MyCollator_call ::
  "('sig list \<Rightarrow> py_error + 'src) \<Rightarrow> MyCollator \<Rightarrow> ('sig \<times> int list) list
     \<Rightarrow> py_error + ('src \<times> real list list list \<times> int list list
                      \<times> mask_value list list list \<times> bool list list)" where
  "MyCollator_call pad_signals self batch =
     (case pad_signals (map fst batch) of
        Inl e \<Rightarrow> Inl e
      | Inr src \<Rightarrow>
     (case dict_get (vocabulary self) (pad_token self) of
        Inl e \<Rightarrow> Inl e
      | Inr pad_id \<Rightarrow>
     (case pad_sequence (map snd batch) pad_id of
        Inl e \<Rightarrow> Inl e
      | Inr labels \<Rightarrow>
     (case scatter_one_hot (dict_len (vocabulary self)) labels of
        Inl e \<Rightarrow> Inl e
      | Inr trg \<Rightarrow>
          let trg_y = map (drop 1) labels
          in (case masks self trg_y of
                Inl e \<Rightarrow> Inl e
              | Inr (pos_mask, pad_mask) \<Rightarrow>
                  Inr (src, map butlast trg, trg_y, pos_mask, pad_mask))))))"

section \<open>Transcript parser\<close>















section \<open>Theorems\<close>

text \<open>
  C2 (as the code has it): on a signal of time length \<open>T\<close> the predicate
  reports a window invalid exactly when the begin is negative or beyond \<open>T\<close>,
  the end is negative or beyond \<open>T\<close>, or the window is shorter than the minimum
  length or has negative length. The bound of the end by \<open>T\<close> is part of the test.
\<close>

theorem test_for_bad_window_iff:
  "test_for_bad_window start stop (T # rest) window =
     Inr (start < 0 \<or> start > int T \<or> stop < 0 \<or> stop > int T
          \<or> stop - start < window \<or> stop - start < 0)"
  by (simp add: test_for_bad_window_def getitem_def)

text \<open>
  C2 fails as stated: a window \<open>[0, 11)\<close> on a signal of length 10 with minimum
  length 5 violates none of the five listed conditions, and the code reports it
  invalid because its end lies beyond the signal.
\<close>

theorem test_for_bad_window_end_beyond_signal:
  "test_for_bad_window 0 11 [10, 2] 5 = Inr True \<and> \<not> spec_bad_window 0 11 10 5"
  by (simp add: test_for_bad_window_def getitem_def spec_bad_window_def)



subsection \<open>Word-pair generation\<close>

text \<open>The accumulator of the loop is only ever extended at its end.\<close>

lemma window_rules_acc: "window_rules acc f s = acc @ window_rules [] f s"
  by (cases f; cases s) (simp add: Let_def)

lemma wordpairs_loop_acc: "wordpairs_loop acc ps = acc @ wordpairs_loop [] ps"
proof (induction ps arbitrary: acc)
  case Nil
  show ?case by simp
next
  case (Cons p ps)
  obtain f s where p: "p = (f, s)" by (cases p)
  have "wordpairs_loop acc (p # ps) = window_rules acc f s @ wordpairs_loop [] ps"
    using Cons.IH [of "window_rules acc f s"] by (simp add: p)
  also have "\<dots> = acc @ window_rules [] f s @ wordpairs_loop [] ps"
    using window_rules_acc [of acc f s] by simp
  also have "\<dots> = acc @ wordpairs_loop [] (p # ps)"
    using Cons.IH [of "window_rules [] f s"] by (simp add: p)
  finally show ?case .
qed

lemma wordpairs_loop_append:
  "wordpairs_loop acc (ps @ qs) = wordpairs_loop (wordpairs_loop acc ps) qs"
  by (induction ps arbitrary: acc) auto

lemma zip_window_split:
  "Suc i < length xs \<Longrightarrow>
   zip xs (drop 1 xs) =
     zip (take (Suc i) xs) (drop 1 (take (Suc i) xs))
     @ (xs ! i, xs ! Suc i) # zip (drop (Suc i) xs) (drop 1 (drop (Suc i) xs))"
proof (induction i arbitrary: xs)
  case 0
  then obtain a b rest where "xs = a # b # rest"
    by (cases xs; cases "tl xs") auto
  then show ?case by simp
next
  case (Suc i)
  then obtain a b rest where xs: "xs = a # b # rest"
    by (cases xs; cases "tl xs") auto
  have "Suc i < length (b # rest)" using Suc.prems xs by simp
  from Suc.IH [OF this] show ?case by (simp add: xs)
qed

text \<open>
  C3: an adjacent pair of target-speaker utterances with one token each and
  strictly increasing onsets contributes exactly one example to the output, the
  merged pair (tokens concatenated, target speaker, onset of the first, offset of
  the second): the output is what the generator emits up to and including the
  first of the two, then the merged pair, then what it emits from the second
  on. An input of length 0 or 1 gives no example.
\<close>

theorem generate_wordpairs_merge:
  "(Suc i < length xs \<and> xs ! i = (toks1, True, on1, off1) \<and>
    xs ! Suc i = (toks2, True, on2, off2) \<and>
    length toks1 = 1 \<and> length toks2 = 1 \<and> on1 < on2 \<longrightarrow>
    generate_wordpairs xs =
      generate_wordpairs (take (Suc i) xs) @ [(toks1 @ toks2, True, on1, off2)]
      @ generate_wordpairs (drop (Suc i) xs))
   \<and> (length ys \<le> 1 \<longrightarrow> generate_wordpairs ys = [])"
proof (intro conjI impI)
  assume a: "Suc i < length xs \<and> xs ! i = (toks1, True, on1, off1) \<and>
    xs ! Suc i = (toks2, True, on2, off2) \<and>
    length toks1 = 1 \<and> length toks2 = 1 \<and> on1 < on2"
  let ?L = "zip (take (Suc i) xs) (drop 1 (take (Suc i) xs))"
  let ?R = "zip (drop (Suc i) xs) (drop 1 (drop (Suc i) xs))"
  have step: "window_rules [] (xs ! i) (xs ! Suc i) = [(toks1 @ toks2, True, on1, off2)]"
    using a by simp
  have "generate_wordpairs xs = wordpairs_loop [] (?L @ (xs ! i, xs ! Suc i) # ?R)"
    using a zip_window_split [of i xs] by (simp add: generate_wordpairs_def)
  also have "\<dots> = wordpairs_loop (window_rules (wordpairs_loop [] ?L) (xs ! i) (xs ! Suc i)) ?R"
    by (simp add: wordpairs_loop_append)
  also have "\<dots> = wordpairs_loop [] ?L @ window_rules [] (xs ! i) (xs ! Suc i) @ wordpairs_loop [] ?R"
    using wordpairs_loop_acc [of "window_rules (wordpairs_loop [] ?L) (xs ! i) (xs ! Suc i)" ?R]
      window_rules_acc [of "wordpairs_loop [] ?L" "xs ! i" "xs ! Suc i"] by simp
  finally show "generate_wordpairs xs =
      generate_wordpairs (take (Suc i) xs) @ [(toks1 @ toks2, True, on1, off2)]
      @ generate_wordpairs (drop (Suc i) xs)"
    by (simp add: step generate_wordpairs_def)
next
  assume "length ys \<le> 1"
  then have "drop 1 ys = []" by simp
  then show "generate_wordpairs ys = []" by (simp add: generate_wordpairs_def)
qed

theorem generate_wordpairs_merge_witness:
  "generate_wordpairs [([9, 8], True, 0, 1), ([1], True, 1, 2), ([2], True, 3, 4), ([5, 6], True, 5, 6)]
     = [([9, 8], True, 0, 1)] @ [([1, 2], True, 1, 4)] @ [([5, 6], True, 5, 6)]
   \<and> generate_wordpairs [([1], True, 1, 2)] = []"
  using generate_wordpairs_merge
    [of 1 "[([9, 8], True, 0, 1), ([1], True, 1, 2), ([2], True, 3, 4), ([5, 6], True, 5, 6)]"
        "[1]" 1 2 "[2]" 3 4 "[([1], True, 1, 2)]"]
  by (simp add: generate_wordpairs_def)

text \<open>The three rules only append examples with two tokens and the target speaker.\<close>

lemma window_rules_inv:
  "\<forall>e \<in> set acc. length (fst e) = 2 \<and> fst (snd e) \<Longrightarrow>
   \<forall>e \<in> set (window_rules acc f s). length (fst e) = 2 \<and> fst (snd e)"
  by (cases f; cases s) (auto simp: Let_def)

lemma wordpairs_loop_inv:
  "\<forall>e \<in> set acc. length (fst e) = 2 \<and> fst (snd e) \<Longrightarrow>
   \<forall>e \<in> set (wordpairs_loop acc ps). length (fst e) = 2 \<and> fst (snd e)"
proof (induction ps arbitrary: acc)
  case Nil
  then show ?case by simp
next
  case (Cons p ps)
  obtain f s where p: "p = (f, s)" by (cases p)
  show ?case using Cons.IH [OF window_rules_inv [OF Cons.prems, of f s]] by (simp add: p)
qed

text \<open>
  C10: every example the generator emits has exactly two tokens and is marked
  as target speaker.
\<close>

theorem generate_wordpairs_output:
  "\<forall>e \<in> set (generate_wordpairs xs). length (fst e) = 2 \<and> fst (snd e) = True"
  using wordpairs_loop_inv [of "[]" "zip xs (drop 1 xs)"]
  by (simp add: generate_wordpairs_def)

theorem generate_wordpairs_output_witness:
  "generate_wordpairs
     [([1], True, 1, 2), ([2], True, 3, 4), ([5, 6], True, 5, 6), ([7], False, 8, 9)]
     = [([1, 2], True, 1, 4), ([5, 6], True, 5, 6), ([5, 6], True, 5, 6)]
   \<and> length (fst (([1, 2], True, 1, 4) :: example)) = 2
   \<and> fst (snd (([1, 2], True, 1, 4) :: example)) = True
   \<and> length (fst (([5, 6], True, 5, 6) :: example)) = 2
   \<and> fst (snd (([5, 6], True, 5, 6) :: example)) = True"
  using generate_wordpairs_output
    [of "[([1], True, 1, 2), ([2], True, 3, 4), ([5, 6], True, 5, 6), ([7], False, 8, 9)]"]
  by (simp add: generate_wordpairs_def)

subsection \<open>Vocabulary filter\<close>

lemma filter_raise_total:
  "(\<And>x. p x = Inr (q x)) \<Longrightarrow> filter_raise p xs = Inr (filter q xs)"
  by (induction xs) simp_all

text \<open>
  C4: with the unknown id in the vocabulary, the tag \<open>train\<close> returns
  exactly the examples whose token list does not contain the unknown id, so no
  returned example contains it at any position; any other tag removes exactly
  the examples whose token list is the unknown id twice and keeps every other
  example, partially unknown pairs included.
\<close>

theorem remove_oovs_policy:
  "map_of vocab ''<unk>'' = Some unk \<Longrightarrow>
   remove_oovs grams vocab ''train'' = Inr (filter (\<lambda>x. unk \<notin> set (fst x)) grams)
   \<and> (data_tag \<noteq> ''train'' \<longrightarrow>
        remove_oovs grams vocab data_tag = Inr (filter (\<lambda>x. fst x \<noteq> [unk, unk]) grams))"
proof -
  assume v: "map_of vocab ''<unk>'' = Some unk"
  have two: "replicate 2 unk = [unk, unk]" by (simp add: numeral_2_eq_2)
  have t: "remove_oovs grams vocab ''train'' = Inr (filter (\<lambda>x. unk \<notin> set (fst x)) grams)"
    unfolding remove_oovs_def using v
    by (simp add: dict_get_def filter_raise_total [where q = "\<lambda>x. unk \<notin> set (fst x)"])
  have e: "data_tag \<noteq> ''train'' \<longrightarrow>
        remove_oovs grams vocab data_tag = Inr (filter (\<lambda>x. fst x \<noteq> [unk, unk]) grams)"
    unfolding remove_oovs_def using v
    by (simp add: dict_get_def two filter_raise_total [where q = "\<lambda>x. fst x \<noteq> [unk, unk]"])
  from t e show ?thesis by simp
qed

theorem remove_oovs_policy_witness:
  "map_of [(''<pad>'', 1), (''<unk>'', 0::int)] ''<unk>'' = Some 0
   \<and> remove_oovs [([0, 17], True, 1, 2), ([0, 0], True, 3, 4), ([5, 6], True, 5, 6)]
        [(''<pad>'', 1), (''<unk>'', 0)] ''train'' = Inr [([5, 6], True, 5, 6)]
   \<and> ''eval'' \<noteq> ''train''
   \<and> remove_oovs [([0, 17], True, 1, 2), ([0, 0], True, 3, 4), ([5, 6], True, 5, 6)]
        [(''<pad>'', 1), (''<unk>'', 0)] ''eval''
      = Inr [([0, 17], True, 1, 2), ([5, 6], True, 5, 6)]"
  using remove_oovs_policy
    [of "[(''<pad>'', 1), (''<unk>'', 0)]" 0
        "[([0, 17], True, 1, 2), ([0, 0], True, 3, 4), ([5, 6], True, 5, 6)]" "''eval''"]
  by simp

subsection \<open>Example dataset\<close>







text \<open>
  C7 (as the code has it): with \<open>count\<close> the number of retained examples, a
  read at \<open>idx\<close> fails with \<open>IndexError\<close> exactly when \<open>idx < -count\<close> or
  \<open>idx \<ge> count\<close>; a read in \<open>[0, count)\<close> returns the example at that
  position, and a read in \<open>[-count, 0)\<close> returns the example at \<open>count + idx\<close>.
\<close>

theorem Brain2enDataset_getitem_bounds:
  "(Brain2enDataset_getitem self idx = Inl IndexError
      \<longleftrightarrow> idx < - int (Brain2enDataset_len self) \<or> int (Brain2enDataset_len self) \<le> idx)
   \<and> (0 \<le> idx \<and> idx < int (Brain2enDataset_len self) \<longrightarrow>
        Brain2enDataset_getitem self idx = Inr (examples self ! nat idx))
   \<and> (- int (Brain2enDataset_len self) \<le> idx \<and> idx < 0 \<longrightarrow>
        Brain2enDataset_getitem self idx
          = Inr (examples self ! nat (int (Brain2enDataset_len self) + idx)))"
  by (auto simp: Brain2enDataset_getitem_def Brain2enDataset_len_def getitem_def)

text \<open>
  C7 fails as stated: in a dataset constructed from one example, position
  \<open>-1\<close> lies outside \<open>[0, 1)\<close> and the read returns the example.
\<close>

theorem Brain2enDataset_getitem_negative:
  "Brain2enDataset_init Suc [[5, 6]] [[1, 7, 8, 2]]
     = Inr \<lparr>examples = [([6, 7], [1, 7, 8, 2])], max_seq_len = 2, max_sent_len = 4,
             train_freq = {#1, 7, 8, 2#}, skipped = 0\<rparr>
   \<and> Brain2enDataset_len
        \<lparr>examples = [([6, 7], [1, 7, 8, 2])], max_seq_len = 2, max_sent_len = 4,
         train_freq = {#1, 7, 8, 2#}, skipped = 0\<rparr> = 1
   \<and> Brain2enDataset_getitem
        \<lparr>examples = [([6, 7], [1, 7, 8, 2])], max_seq_len = 2, max_sent_len = 4,
         train_freq = {#1, 7, 8, 2#}, skipped = 0\<rparr> (- 1)
       = Inr ([6, 7], [1, 7, 8, 2])"
  by (simp add: Brain2enDataset_init_def sorted_indices_def Brain2enDataset_len_def
      Brain2enDataset_getitem_def getitem_def)

theorem Brain2enDataset_getitem_bounds_witness:
  "Brain2enDataset_getitem
     \<lparr>examples = [([6, 7::nat], [1, 7, 8, 2]), ([9], [1, 3, 3, 3, 2])], max_seq_len = 2,
      max_sent_len = 5, train_freq = {#1, 7, 8, 2, 1, 3, 3, 3, 2#}, skipped = 0\<rparr> 2
     = Inl IndexError
   \<and> Brain2enDataset_getitem
     \<lparr>examples = [([6, 7::nat], [1, 7, 8, 2]), ([9], [1, 3, 3, 3, 2])], max_seq_len = 2,
      max_sent_len = 5, train_freq = {#1, 7, 8, 2, 1, 3, 3, 3, 2#}, skipped = 0\<rparr> (- 2)
     = Inr ([6, 7], [1, 7, 8, 2])"
  using Brain2enDataset_getitem_bounds
    [of "\<lparr>examples = [([6, 7::nat], [1, 7, 8, 2]), ([9], [1, 3, 3, 3, 2])], max_seq_len = 2,
      max_sent_len = 5, train_freq = {#1, 7, 8, 2, 1, 3, 3, 3, 2#}, skipped = 0\<rparr>" 2]
    Brain2enDataset_getitem_bounds
    [of "\<lparr>examples = [([6, 7::nat], [1, 7, 8, 2]), ([9], [1, 3, 3, 3, 2])], max_seq_len = 2,
      max_sent_len = 5, train_freq = {#1, 7, 8, 2, 1, 3, 3, 3, 2#}, skipped = 0\<rparr>" "- 2"]
  by (simp add: Brain2enDataset_len_def)

subsection \<open>Batch collation\<close>

lemma scatter_in_range:
  assumes "0 \<le> p \<and> p < int V"
    and "\<forall>lab \<in> set labs. \<forall>t \<in> set lab. 0 \<le> t \<and> t < int V"
  shows "scatter_one_hot V (map (\<lambda>s. s @ replicate (m - length s) p) labs)
           = Inr (map (map (one_hot V)) (map (\<lambda>s. s @ replicate (m - length s) p) labs))"
  using assms by (auto simp: scatter_one_hot_def list_all_iff)

lemma pad_mask_3_5:
  assumes "map length labs = [3, 5]" and "\<forall>lab \<in> set labs. p \<notin> set lab"
  shows "map (map (\<lambda>t. t = p))
           (map (drop 1) (map (\<lambda>s. s @ replicate (fold max (map length labs) 0 - length s) p) labs))
         = [[False, False, True, True], [False, False, False, False]]"
proof -
  from assms(1) obtain a b where labs: "labs = [a, b]" and la: "length a = 3" and lb: "length b = 5"
    by (auto simp: map_eq_Cons_conv)
  from la obtain a1 a2 a3 where a: "a = [a1, a2, a3]"
    by (auto simp: numeral_3_eq_3 length_Suc_conv)
  from lb obtain b1 b2 b3 b4 b5 where b: "b = [b1, b2, b3, b4, b5]"
    by (auto simp: eval_nat_numeral length_Suc_conv)
  have rep: "replicate 2 p = [p, p]" by (simp add: numeral_2_eq_2)
  from assms(2) show ?thesis by (auto simp: labs a b rep)
qed

text \<open>
  C9: for a non-empty batch whose signals can be padded, with the pad token in
  the vocabulary and every label id (and the pad id) inside the one-hot range,
  the collator returns a \<open>pad_mask\<close> that is true exactly at the positions where
  \<open>trg_y\<close>, the padded labels without their first column, equals the pad id. For
  label lengths 3 and 5 without the pad id among the labels, \<open>pad_mask\<close> is true
  only in the last two positions of the first (shorter) row.
\<close>

theorem MyCollator_pad_mask:
  assumes src: "pad_signals (map fst batch) = Inr src"
    and pad: "map_of (vocabulary self) (pad_token self) = Some pad_id"
    and ne: "batch \<noteq> []"
    and pad_rng: "0 \<le> pad_id \<and> pad_id < int (dict_len (vocabulary self))"
    and rng: "\<forall>lab \<in> set (map snd batch). \<forall>t \<in> set lab.
                0 \<le> t \<and> t < int (dict_len (vocabulary self))"
  shows "\<exists>trg trg_y pos_mask pad_mask.
           MyCollator_call pad_signals self batch = Inr (src, trg, trg_y, pos_mask, pad_mask)
         \<and> trg_y = map (\<lambda>lab. drop 1 (lab @ replicate
                          (fold max (map length (map snd batch)) 0 - length lab) pad_id))
                        (map snd batch)
         \<and> pad_mask = map (map (\<lambda>t. t = pad_id)) trg_y
         \<and> (map length (map snd batch) = [3, 5]
              \<and> (\<forall>lab \<in> set (map snd batch). pad_id \<notin> set lab)
              \<longrightarrow> pad_mask = [[False, False, True, True], [False, False, False, False]])"
proof -
  let ?labs = "map snd batch"
  let ?m = "fold max (map length ?labs) 0"
  let ?padded = "map (\<lambda>s. s @ replicate (?m - length s) pad_id) ?labs"
  let ?trg_y = "map (drop 1) ?padded"
  let ?pad_mask = "map (map (\<lambda>t. t = pad_id)) ?trg_y"
  have p: "pad_sequence ?labs pad_id = Inr ?padded"
    using ne by (simp add: pad_sequence_def)
  have sc: "scatter_one_hot (dict_len (vocabulary self)) ?padded
              = Inr (map (map (one_hot (dict_len (vocabulary self)))) ?padded)"
    by (rule scatter_in_range [OF pad_rng rng])
  have m: "masks self ?trg_y
             = Inr ([map (\<lambda>i. map (\<lambda>j. if j \<le> i then MaskZero else MaskNegInf) [0..<size1 ?trg_y])
                       [0..<size1 ?trg_y]], ?pad_mask)"
    using pad by (simp add: masks_def dict_get_def Let_def)
  have call: "MyCollator_call pad_signals self batch
                = Inr (src, map butlast (map (map (one_hot (dict_len (vocabulary self)))) ?padded),
                       ?trg_y,
                       [map (\<lambda>i. map (\<lambda>j. if j \<le> i then MaskZero else MaskNegInf) [0..<size1 ?trg_y])
                          [0..<size1 ?trg_y]], ?pad_mask)"
  proof -
    have dg: "dict_get (vocabulary self) (pad_token self) = Inr pad_id"
      using pad by (simp add: dict_get_def)
    show ?thesis
      by (simp only: MyCollator_call_def src dg p sc m Let_def sum.case prod.case)
  qed
  have ty: "?trg_y = map (\<lambda>lab. drop 1 (lab @ replicate (?m - length lab) pad_id)) ?labs"
    by simp
  have part: "map length ?labs = [3, 5] \<and> (\<forall>lab \<in> set ?labs. pad_id \<notin> set lab)
              \<longrightarrow> ?pad_mask = [[False, False, True, True], [False, False, False, False]]"
  proof (intro impI, elim conjE)
    assume "map length ?labs = [3, 5]" and "\<forall>lab \<in> set ?labs. pad_id \<notin> set lab"
    then show "?pad_mask = [[False, False, True, True], [False, False, False, False]]"
      by (rule pad_mask_3_5)
  qed
  show ?thesis
  proof (intro exI conjI)
    show "MyCollator_call pad_signals self batch
            = Inr (src, map butlast (map (map (one_hot (dict_len (vocabulary self)))) ?padded),
                   ?trg_y,
                   [map (\<lambda>i. map (\<lambda>j. if j \<le> i then MaskZero else MaskNegInf) [0..<size1 ?trg_y])
                      [0..<size1 ?trg_y]], ?pad_mask)"
      by (rule call)
    show "?trg_y = map (\<lambda>lab. drop 1 (lab @ replicate (?m - length lab) pad_id)) ?labs"
      by (rule ty)
    show "?pad_mask = map (map (\<lambda>t. t = pad_id)) ?trg_y"
      by (rule refl)
    show "map length ?labs = [3, 5] \<and> (\<forall>lab \<in> set ?labs. pad_id \<notin> set lab)
              \<longrightarrow> ?pad_mask = [[False, False, True, True], [False, False, False, False]]"
      by (rule part)
  qed
qed

theorem MyCollator_pad_mask_witness:
  "MyCollator_call (\<lambda>sigs. pad_sequence sigs [0::real, 0])
     \<lparr>CONFIG = [(''pad_token'', ''<pad>'')],
      vocabulary = [(''<pad>'', 0), (''a'', 1), (''b'', 2)], pad_token = ''<pad>''\<rparr>
     [([[1, 2]], [1, 2, 1]), ([[3, 4], [5, 6]], [1, 1, 2, 2, 1])]
   = Inr ([[[1, 2], [0, 0]], [[3, 4], [5, 6]]],
          [[[0, 1, 0], [0, 0, 1], [0, 1, 0], [1, 0, 0]],
           [[0, 1, 0], [0, 1, 0], [0, 0, 1], [0, 0, 1]]],
          [[2, 1, 0, 0], [1, 2, 2, 1]],
          [[[MaskZero, MaskNegInf, MaskNegInf, MaskNegInf], [MaskZero, MaskZero, MaskNegInf, MaskNegInf],
            [MaskZero, MaskZero, MaskZero, MaskNegInf], [MaskZero, MaskZero, MaskZero, MaskZero]]],
          [[False, False, True, True], [False, False, False, False]])"
  using MyCollator_pad_mask
    [of "\<lambda>sigs. pad_sequence sigs [0::real, 0]"
        "[([[1, 2]], [1, 2, 1]), ([[3, 4], [5, 6]], [1, 1, 2, 2, 1])]"
        "[[[1, 2], [0, 0]], [[3, 4], [5, 6]]]"
        "\<lparr>CONFIG = [(''pad_token'', ''<pad>'')],
          vocabulary = [(''<pad>'', 0), (''a'', 1), (''b'', 2)], pad_token = ''<pad>''\<rparr>"
        0]
  by (simp add: pad_sequence_def dict_len_def MyCollator_call_def dict_get_def
      scatter_one_hot_def one_hot_def masks_def size1_def upt_rec [of 0] upt_rec [of 1]
      upt_rec [of 2] upt_rec [of 3] upt_rec [of 4] butlast_snoc)

subsection \<open>Transcript parser\<close>






end
